theory Spec2Isabelle
  imports Main
begin

section \<open>Data model\<close>

text \<open>
  The notebooks keep the conversation in a Python list of dictionaries. Every dictionary
  the program builds maps attribute names (\<open>role\<close>, \<open>content\<close>, \<open>name\<close>) to strings, so a
  message is an association list of string pairs in insertion order, which is the order
  \<open>message.items()\<close> iterates in. A Python dictionary has no repeated key; \<open>wf_message\<close>
  states this for an association list.
\<close>

type_synonym message = "(string \<times> string) list"

type_synonym history = "message list"

definition wf_message :: "message \<Rightarrow> bool" where
  "wf_message message = distinct (map fst message)"

text \<open>
  The tokenizer (\<open>tiktoken\<close>'s \<open>cl100k_base\<close> encoding) is a library outside the
  repository. It is a parameter of the model: a function from a text to its list of token
  numbers. The program only takes the length of that list.
\<close>

type_synonym encoding = "string \<Rightarrow> nat list"

text \<open>A tokenizer for concrete evaluations: one token for each character.\<close>

definition char_encoding :: encoding where
  "char_encoding text = map of_char text"

text \<open>The exceptions the modelled code can end with.\<close>

datatype error =
    IndexError
  | KeyError
  | EOFError
  | ServiceError string
  | ToolError string

section \<open>Cost estimator: \<open>num_tokens_from_messages\<close>\<close>

text \<open>
  \<^verbatim>\<open>
  def num_tokens_from_messages(messages):
      encoding = tiktoken.get_encoding("cl100k_base")
      num_tokens = 0
      for message in messages:
          num_tokens += 4
          for key, value in message.items():
              num_tokens += len(encoding.encode(value))
              if key == "name":
                  num_tokens += -1
      num_tokens += 2
      return num_tokens
  \<close>
  The two loops are recursions over the list that thread the counter \<open>num_tokens\<close>.
\<close>

fun items_loop :: "encoding \<Rightarrow> message \<Rightarrow> int \<Rightarrow> int" where
  "items_loop encode [] num_tokens = num_tokens"
| "items_loop encode ((key, value) # items) num_tokens =
     (let num_tokens = num_tokens + int (length (encode value));
          num_tokens = (if key = ''name'' then num_tokens + (- 1) else num_tokens)
      in items_loop encode items num_tokens)"

fun messages_loop :: "encoding \<Rightarrow> history \<Rightarrow> int \<Rightarrow> int" where
  "messages_loop encode [] num_tokens = num_tokens"
| "messages_loop encode (message # messages) num_tokens =
     messages_loop encode messages (items_loop encode message (num_tokens + 4))"

definition num_tokens_from_messages :: "encoding \<Rightarrow> history \<Rightarrow> int" where
  "num_tokens_from_messages encode messages = messages_loop encode messages 0 + 2"

text \<open>What one message adds to the counter: one round of the outer loop, started at 0.\<close>

definition message_tokens :: "encoding \<Rightarrow> message \<Rightarrow> int" where
  "message_tokens encode message = items_loop encode message (0 + 4)"

section \<open>Trimming the history\<close>

text \<open>
  \<open>list.pop(i)\<close> for an index \<open>i \<ge> 0\<close>: the element and the list without it, or
  \<open>IndexError\<close> when the index is out of range.
\<close>

definition pop :: "'a list \<Rightarrow> nat \<Rightarrow> error + ('a \<times> 'a list)" where
  "pop xs i =
     (if i < length xs then Inr (xs ! i, take i xs @ drop (Suc i) xs) else Inl IndexError)"

text \<open>
  \<^verbatim>\<open>
  while num_tokens_from_messages(messages) > max_tokens:
      messages.pop(1)
  \<close>
  The loop mutates the global list. The model returns the list the loop leaves behind:
  \<open>Inr\<close> when the loop ends because its condition is false, \<open>Inl\<close> with the exception
  and the list as it is at that moment when \<open>pop\<close> raises.
\<close>

function trim :: "encoding \<Rightarrow> int \<Rightarrow> history \<Rightarrow> (error \<times> history) + history" where
  "trim encode max_tokens messages =
     (if num_tokens_from_messages encode messages > max_tokens
      then (case pop messages 1 of
              Inl e \<Rightarrow> Inl (e, messages)
            | Inr (popped, messages') \<Rightarrow> trim encode max_tokens messages')
      else Inr messages)"
  by pat_completeness auto
termination
  by (relation "measure (\<lambda>(encode, max_tokens, messages). length messages)")
     (auto simp: pop_def split: if_splits)

declare trim.simps [simp del]

text \<open>The list the loop leaves behind, whichever way it ends.\<close>

definition final_messages :: "(error \<times> history) + history \<Rightarrow> history" where
  "final_messages r = (case r of Inl (e, messages) \<Rightarrow> messages | Inr messages \<Rightarrow> messages)"

text \<open>
  The number of successful \<open>pop\<close> calls the loop makes: the same recursion as \<open>trim\<close>,
  counting instead of returning the list.
\<close>

function trim_pops :: "encoding \<Rightarrow> int \<Rightarrow> history \<Rightarrow> nat" where
  "trim_pops encode max_tokens messages =
     (if num_tokens_from_messages encode messages > max_tokens
      then (case pop messages 1 of
              Inl e \<Rightarrow> 0
            | Inr (popped, messages') \<Rightarrow> Suc (trim_pops encode max_tokens messages'))
      else 0)"
  by pat_completeness auto
termination
  by (relation "measure (\<lambda>(encode, max_tokens, messages). length messages)")
     (auto simp: pop_def split: if_splits)

declare trim_pops.simps [simp del]

section \<open>The estimator as the specification words it\<close>

text \<open>
  The specification's estimator, for comparison with the code's: for each message the
  overhead 4, the tokenizer length of \<open>content\<close>, of \<open>name\<close> if present and of
  \<open>function_call\<close> if present, minus 1 when a \<open>name\<close> is present; plus 2 at the end.
  No other attribute is counted.
\<close>

definition spec_attribute_tokens :: "encoding \<Rightarrow> message \<Rightarrow> string \<Rightarrow> int" where
  "spec_attribute_tokens encode message key =
     (case map_of message key of None \<Rightarrow> 0 | Some text \<Rightarrow> int (length (encode text)))"

definition spec_message_cost :: "encoding \<Rightarrow> message \<Rightarrow> int" where
  "spec_message_cost encode message =
     4 + spec_attribute_tokens encode message ''content''
       + spec_attribute_tokens encode message ''name''
       + spec_attribute_tokens encode message ''function_call''
       - (if map_of message ''name'' = None then 0 else 1)"

definition spec_estimate :: "encoding \<Rightarrow> history \<Rightarrow> int" where
  "spec_estimate encode messages = (\<Sum>m\<leftarrow>messages. spec_message_cost encode m) + 2"

section \<open>The conversation loops\<close>

text \<open>
  The result of \<open>openai.ChatCompletion.create\<close>, as far as the program reads it:
  \<open>response['choices'][0]['finish_reason']\<close>, and of
  \<open>response['choices'][0]['message']\<close> the entries \<open>content\<close> and \<open>function_call\<close>
  (a dictionary with \<open>name\<close> and \<open>arguments\<close>, absent in a plain reply).
\<close>

record response =
  finish_reason :: string
  content :: string
  function_call :: "(string \<times> string) option"

text \<open>
  The global variables of a notebook, and the lines that \<open>input\<close> will return, in order.
\<close>

record session =
  messages :: history
  user_message :: string
  inputs :: "string list"

text \<open>
  The remote service is a parameter \<open>create\<close>: from the message list it is called with to
  its response, or to the exception it raises. Nothing in the notebooks catches an
  exception, so one ends the loop; \<open>Inl\<close> carries it together with the session as it is
  at that moment.
\<close>

type_synonym service = "history \<Rightarrow> error + response"

text \<open>
  Notebook \<open>2_managing_conversations\<close>, the body of \<open>while user_message != "exit"\<close>:
  \<^verbatim>\<open>
  messages.append({"role": "user", "content": user_message})
  while num_tokens_from_messages(messages) > max_tokens:
      messages.pop(1)
  response = openai.ChatCompletion.create(..., messages = messages, ...)
  assistant_message = response['choices'][0]['message']['content']
  messages.append({"role": "assistant", "content": assistant_message})
  sleep(1)
  user_message = input("You: ")
  \<close>
\<close>

definition conversation_loop_body ::
    "encoding \<Rightarrow> int \<Rightarrow> service \<Rightarrow> session \<Rightarrow> (error \<times> session) + session" where
  "conversation_loop_body encode max_tokens create st =
     (let st = st\<lparr>messages :=
                 messages st @ [[(''role'', ''user''), (''content'', user_message st)]]\<rparr>
      in case trim encode max_tokens (messages st) of
           Inl (e, trimmed) \<Rightarrow> Inl (e, st\<lparr>messages := trimmed\<rparr>)
         | Inr trimmed \<Rightarrow>
             (let st = st\<lparr>messages := trimmed\<rparr>
              in case create (messages st) of
                   Inl e \<Rightarrow> Inl (e, st)
                 | Inr response \<Rightarrow>
                     (let assistant_message = content response;
                          st = st\<lparr>messages := messages st @
                                 [[(''role'', ''assistant''), (''content'', assistant_message)]]\<rparr>
                      in case inputs st of
                           [] \<Rightarrow> Inl (EOFError, st)
                         | line # rest \<Rightarrow> Inr (st\<lparr>user_message := line, inputs := rest\<rparr>))))"

text \<open>
  Notebook \<open>1_basic_chatcompletions_example\<close>, the body of the loop with function calling:
  \<^verbatim>\<open>
  while num_tokens_from_messages(messages) > max_tokens:
      messages.pop(1)
  response = openai.ChatCompletion.create(..., messages = messages, ...)
  if response['choices'][0]['finish_reason'] == "function_call":
      function_call = response['choices'][0]['message']['function_call']
      if function_call['name'] == "get_weather":
          arguments = json.loads(function_call['arguments'])
          weather = get_weather(arguments.get("latitude"), ...)
          messages.append({"role": "function", "name": "get_weather",
                           "content": json.dumps(weather)})
  else:
      assistant_message = response['choices'][0]['message']['content']
      messages.append({"role": "assistant", "content": assistant_message})
      sleep(1)
      user_message = input("You: ")
      messages.append({"role": "user", "content": user_message})
  \<close>
  Parsing the arguments, the request to the weather service and \<open>json.dumps\<close> of its
  answer are outside the repository's logic: the parameter \<open>weather_json\<close> maps the
  argument text to the serialized answer, or to the exception one of the three raises.
\<close>

definition function_call_loop_body ::
    "encoding \<Rightarrow> int \<Rightarrow> service \<Rightarrow> (string \<Rightarrow> error + string) \<Rightarrow> session
      \<Rightarrow> (error \<times> session) + session" where
  "function_call_loop_body encode max_tokens create weather_json st =
     (case trim encode max_tokens (messages st) of
        Inl (e, trimmed) \<Rightarrow> Inl (e, st\<lparr>messages := trimmed\<rparr>)
      | Inr trimmed \<Rightarrow>
          (let st = st\<lparr>messages := trimmed\<rparr>
           in case create (messages st) of
                Inl e \<Rightarrow> Inl (e, st)
              | Inr response \<Rightarrow>
                  if finish_reason response = ''function_call'' then
                    (case function_call response of
                       None \<Rightarrow> Inl (KeyError, st)
                     | Some (name, arguments) \<Rightarrow>
                         if name = ''get_weather'' then
                           (case weather_json arguments of
                              Inl e \<Rightarrow> Inl (e, st)
                            | Inr weather \<Rightarrow>
                                Inr (st\<lparr>messages := messages st @
                                       [[(''role'', ''function''), (''name'', ''get_weather''),
                                         (''content'', weather)]]\<rparr>))
                         else Inr st)
                  else
                    (let assistant_message = content response;
                         st = st\<lparr>messages := messages st @
                                [[(''role'', ''assistant''), (''content'', assistant_message)]]\<rparr>
                     in case inputs st of
                          [] \<Rightarrow> Inl (EOFError, st)
                        | line # rest \<Rightarrow>
                            Inr (st\<lparr>user_message := line, inputs := rest,
                                    messages := messages st @
                                      [[(''role'', ''user''), (''content'', line)]]\<rparr>))))"

text \<open>The session an iteration leaves behind, whichever way it ends.\<close>

definition final_session :: "(error \<times> session) + session \<Rightarrow> session" where
  "final_session r = (case r of Inl (e, st) \<Rightarrow> st | Inr st \<Rightarrow> st)"

section \<open>Facts about the estimator\<close>

lemma items_loop_acc:
  "items_loop encode message n = n + items_loop encode message 0"
proof (induction message arbitrary: n)
  case Nil
  show ?case by simp
next
  case (Cons item items)
  obtain key val where item: "item = (key, val)" by (cases item)
  show ?case
    using Cons.IH [of "n + int (length (encode val))"]
      Cons.IH [of "n + int (length (encode val)) + (- 1)"]
      Cons.IH [of "int (length (encode val))"]
      Cons.IH [of "int (length (encode val)) + (- 1)"]
    by (simp add: item Let_def)
qed

lemma messages_loop_acc:
  "messages_loop encode ms n = n + (\<Sum>m\<leftarrow>ms. message_tokens encode m)"
proof (induction ms arbitrary: n)
  case Nil
  show ?case by simp
next
  case (Cons m ms)
  have "items_loop encode m (n + 4) = n + message_tokens encode m"
    using items_loop_acc [of encode m "n + 4"] items_loop_acc [of encode m 4]
    by (simp add: message_tokens_def)
  then show ?case
    by (simp add: Cons.IH)
qed

lemma num_tokens_sum:
  "num_tokens_from_messages encode ms = (\<Sum>m\<leftarrow>ms. message_tokens encode m) + 2"
  by (simp add: num_tokens_from_messages_def messages_loop_acc)

lemma items_loop_sum:
  "items_loop encode m 0 =
     (\<Sum>(k, v)\<leftarrow>m. int (length (encode v)))
       - int (length (filter (\<lambda>kv. fst kv = ''name'') m))"
proof (induction m)
  case Nil
  show ?case by simp
next
  case (Cons item items)
  obtain key val where item: "item = (key, val)" by (cases item)
  show ?case
    using Cons.IH items_loop_acc [of encode items "int (length (encode val))"]
      items_loop_acc [of encode items "int (length (encode val)) + (- 1)"]
    by (simp add: item Let_def)
qed

lemma distinct_key_count:
  "distinct (map fst m) \<Longrightarrow>
     length (filter (\<lambda>kv. fst kv = k) m) = (if k \<in> fst ` set m then 1 else 0)"
proof (induction m)
  case Nil
  show ?case by simp
next
  case (Cons item items)
  then show ?case by (cases "fst item = k") (auto simp: filter_empty_conv)
qed

lemma message_tokens_sum:
  "message_tokens encode m =
     4 + (\<Sum>(k, v)\<leftarrow>m. int (length (encode v)))
       - int (length (filter (\<lambda>kv. fst kv = ''name'') m))"
  using items_loop_acc [of encode m 4] items_loop_sum [of encode m]
  by (simp add: message_tokens_def)

lemma message_tokens_wf:
  assumes "wf_message m"
  shows "message_tokens encode m =
     4 + (\<Sum>(k, v)\<leftarrow>m. int (length (encode v))) - (if ''name'' \<in> fst ` set m then 1 else 0)"
  using assms distinct_key_count [of m "''name''"]
  by (simp add: message_tokens_sum wf_message_def)

lemma num_tokens_append:
  "num_tokens_from_messages encode (pre @ m # post) =
     num_tokens_from_messages encode (pre @ post) + message_tokens encode m"
  by (simp add: num_tokens_sum)

section \<open>Claims about the estimator\<close>

text \<open>
  Claim C3, as the code has it. The estimate is the sum over the messages of 4, plus the
  tokenizer length of the value of every attribute of the message (the inner loop runs
  over all of \<open>message.items()\<close>, so \<open>role\<close> is counted like \<open>content\<close> and \<open>name\<close>),
  minus 1 when the message has a \<open>name\<close> attribute; plus 2 at the end.
\<close>

theorem estimate_counts_every_attribute:
  assumes "\<forall>m \<in> set ms. wf_message m"
  shows "num_tokens_from_messages encode ms =
     (\<Sum>m\<leftarrow>ms. 4 + (\<Sum>(k, v)\<leftarrow>m. int (length (encode v)))
                  - (if ''name'' \<in> fst ` set m then 1 else 0)) + 2"
proof -
  have "(\<Sum>m\<leftarrow>ms. message_tokens encode m) =
        (\<Sum>m\<leftarrow>ms. 4 + (\<Sum>(k, v)\<leftarrow>m. int (length (encode v)))
                  - (if ''name'' \<in> fst ` set m then 1 else 0))"
    using assms by (induction ms) (simp_all add: message_tokens_wf)
  then show ?thesis
    by (simp only: num_tokens_sum)
qed

text \<open>
  The formula at a function-result message, one token for each character:
  4 + 8 (\<open>function\<close>) + 1 (\<open>f\<close>) - 1 + 2 (\<open>ok\<close>) + 2 = 16.
\<close>

theorem estimate_counts_every_attribute_witness:
  "wf_message [(''role'', ''function''), (''name'', ''f''), (''content'', ''ok'')]
   \<and> num_tokens_from_messages char_encoding
        [[(''role'', ''function''), (''name'', ''f''), (''content'', ''ok'')]] = 16"
  using estimate_counts_every_attribute
    [of "[[(''role'', ''function''), (''name'', ''f''), (''content'', ''ok'')]]" char_encoding]
  by (simp add: wf_message_def char_encoding_def)

text \<open>
  Claim C3 as the specification words it fails: for the system message with content
  \<open>hi\<close> the specification's formula gives 4 + 2 + 2 = 8, the code returns 14, the six
  characters of \<open>system\<close> included.
\<close>

theorem estimate_role_counterexample:
  "num_tokens_from_messages char_encoding [[(''role'', ''system''), (''content'', ''hi'')]] = 14
   \<and> spec_estimate char_encoding [[(''role'', ''system''), (''content'', ''hi'')]] = 8
   \<and> num_tokens_from_messages char_encoding [[(''role'', ''system''), (''content'', ''hi'')]]
       \<noteq> spec_estimate char_encoding [[(''role'', ''system''), (''content'', ''hi'')]]"
  by (simp add: num_tokens_from_messages_def spec_estimate_def spec_message_cost_def
      spec_attribute_tokens_def char_encoding_def)

text \<open>
  Claim C6, as the code has it. The estimator checks nothing: a message with neither
  \<open>content\<close> nor \<open>function_call\<close> is counted like any other, and adds 4 plus the
  tokenizer lengths of the attributes it has (minus 1 when it has a \<open>name\<close>) to the total.
\<close>

theorem malformed_message_costed:
  assumes "''content'' \<notin> fst ` set m" and "''function_call'' \<notin> fst ` set m"
    and "wf_message m"
  shows "num_tokens_from_messages encode (pre @ m # post) =
     num_tokens_from_messages encode (pre @ post)
       + 4 + (\<Sum>(k, v)\<leftarrow>m. int (length (encode v)))
       - (if ''name'' \<in> fst ` set m then 1 else 0)"
  using assms(3) by (simp add: num_tokens_append message_tokens_wf)

theorem malformed_message_costed_witness:
  "''content'' \<notin> fst ` set [(''role'', ''user'')]
   \<and> ''function_call'' \<notin> fst ` set [(''role'', ''user'')]
   \<and> wf_message [(''role'', ''user'')]
   \<and> num_tokens_from_messages char_encoding ([] @ [(''role'', ''user'')] # []) =
       num_tokens_from_messages char_encoding ([] @ []) + 8"
  using malformed_message_costed [of "[(''role'', ''user'')]" char_encoding "[]" "[]"]
  by (simp add: wf_message_def char_encoding_def)

text \<open>
  Claim C6 as stated fails: for the list holding only the message \<open>{"role": "user"}\<close>,
  which has neither \<open>content\<close> nor \<open>function_call\<close>, the estimator returns
  4 + 4 + 2 = 10.
\<close>

theorem malformed_message_counterexample:
  "num_tokens_from_messages char_encoding [[(''role'', ''user'')]] = 10"
  by (simp add: num_tokens_from_messages_def char_encoding_def)

text \<open>
  Claim C7, as the code has it. A message with a \<open>name\<close> attribute costs what the same
  message without it costs, plus the tokenizer length of the name's text, minus 1. It is
  1 less only when the tokenizer gives the name's text no token.
\<close>

theorem name_attribute_cost:
  "message_tokens encode (before @ (''name'', name) # after) =
     message_tokens encode (before @ after) + int (length (encode name)) - 1"
  by (simp add: message_tokens_sum)

text \<open>
  Claim C7 as stated fails: the function-result message of the notebook, named
  \<open>get_weather\<close>, costs 10 more than the same message without the name, not 1 less.
\<close>

theorem name_attribute_counterexample:
  "message_tokens char_encoding
     [(''role'', ''function''), (''name'', ''get_weather''), (''content'', ''{}'')]
   \<noteq> message_tokens char_encoding [(''role'', ''function''), (''content'', ''{}'')] - 1"
  by (simp add: message_tokens_def char_encoding_def)

section \<open>Facts about trimming\<close>

lemma pop_1_Cons: "pop (s # m # rest) (Suc 0) = Inr (m, s # rest)"
  by (simp add: pop_def)

lemma pop_1_short: "length H \<le> Suc 0 \<Longrightarrow> pop H (Suc 0) = Inl IndexError"
  by (simp add: pop_def)

lemma trim_within:
  "num_tokens_from_messages encode H \<le> b \<Longrightarrow> trim encode b H = Inr H"
  by (simp add: trim.simps)

lemma trim_evict:
  "b < num_tokens_from_messages encode (s # m # rest) \<Longrightarrow>
     trim encode b (s # m # rest) = trim encode b (s # rest)"
  by (subst trim.simps) (simp add: pop_1_Cons)

lemma trim_short:
  "b < num_tokens_from_messages encode H \<Longrightarrow> length H \<le> 1 \<Longrightarrow>
     trim encode b H = Inl (IndexError, H)"
  by (subst trim.simps) (simp add: pop_1_short)

lemma trim_pops_within:
  "num_tokens_from_messages encode H \<le> b \<Longrightarrow> trim_pops encode b H = 0"
  by (simp add: trim_pops.simps)

lemma trim_pops_evict:
  "b < num_tokens_from_messages encode (s # m # rest) \<Longrightarrow>
     trim_pops encode b (s # m # rest) = Suc (trim_pops encode b (s # rest))"
  by (subst trim_pops.simps) (simp add: pop_1_Cons)

lemma trim_pops_short:
  "b < num_tokens_from_messages encode H \<Longrightarrow> length H \<le> 1 \<Longrightarrow> trim_pops encode b H = 0"
  by (subst trim_pops.simps) (simp add: pop_1_short)

text \<open>The shape of the list the loop leaves: the first entry, then a suffix of the rest.\<close>

lemma final_messages_Cons:
  "final_messages (trim encode b (s # rest)) = s # drop (trim_pops encode b (s # rest)) rest
   \<and> trim_pops encode b (s # rest) \<le> length rest"
proof (induction rest)
  case Nil
  show ?case
  proof (cases "b < num_tokens_from_messages encode [s]")
    case True
    then show ?thesis by (simp add: trim_short trim_pops_short final_messages_def)
  next
    case False
    then show ?thesis by (simp add: trim_within trim_pops_within final_messages_def)
  qed
next
  case (Cons m rest)
  show ?case
  proof (cases "b < num_tokens_from_messages encode (s # m # rest)")
    case True
    then show ?thesis using Cons.IH by (simp add: trim_evict trim_pops_evict)
  next
    case False
    then show ?thesis by (simp add: trim_within trim_pops_within final_messages_def)
  qed
qed

lemma final_messages_Nil: "final_messages (trim encode b []) = []"
  by (cases "b < num_tokens_from_messages encode []")
     (simp_all add: trim_short trim_within final_messages_def)

lemma final_messages_shape:
  "final_messages (trim encode b H) = take 1 H @ drop (Suc (trim_pops encode b H)) H
   \<and> trim_pops encode b H \<le> length H - 1"
proof (cases H)
  case Nil
  have "trim_pops encode b [] = 0"
    by (cases "b < num_tokens_from_messages encode []")
       (simp_all add: trim_pops_short trim_pops_within)
  then show ?thesis by (simp add: Nil final_messages_Nil)
next
  case (Cons s rest)
  then show ?thesis using final_messages_Cons [of encode b s rest] by simp
qed

text \<open>Every eviction happens at a list that is over the budget.\<close>

lemma evictions_over_budget:
  "j < trim_pops encode b (s # rest) \<Longrightarrow> b < num_tokens_from_messages encode (s # drop j rest)"
proof (induction rest arbitrary: j)
  case Nil
  then show ?case using final_messages_Cons [of encode b s "[]"] by simp
next
  case (Cons m rest)
  show ?case
  proof (cases "b < num_tokens_from_messages encode (s # m # rest)")
    case False
    with Cons.prems show ?thesis by (simp add: trim_pops_within)
  next
    case True
    show ?thesis
    proof (cases j)
      case 0
      with True show ?thesis by simp
    next
      case (Suc i)
      with Cons.prems True have "i < trim_pops encode b (s # rest)"
        by (simp add: trim_pops_evict)
      from Cons.IH [OF this] show ?thesis by (simp add: Suc)
    qed
  qed
qed

text \<open>The two ways the loop ends.\<close>

lemma trim_outcome:
  "(\<exists>H'. trim encode b H = Inr H' \<and> num_tokens_from_messages encode H' \<le> b)
   \<or> (\<exists>H'. trim encode b H = Inl (IndexError, H') \<and> length H' \<le> 1
          \<and> b < num_tokens_from_messages encode H')"
proof (induction encode b H rule: trim.induct)
  case (1 encode b H)
  show ?case
  proof (cases "b < num_tokens_from_messages encode H")
    case False
    then show ?thesis by (simp add: trim_within)
  next
    case over: True
    show ?thesis
    proof (cases "length H \<le> 1")
      case True
      with over show ?thesis by (simp add: trim_short)
    next
      case False
      then obtain s m rest where H: "H = s # m # rest"
        by (cases H; cases "tl H") auto
      have "pop H 1 = Inr (m, s # rest)" by (simp add: H pop_def)
      from "1.IH" [OF _ this refl] over
      show ?thesis by (simp add: H trim_evict)
    qed
  qed
qed

lemma trim_Inr_cost:
  "trim encode b H = Inr H' \<Longrightarrow> num_tokens_from_messages encode H' \<le> b"
  using trim_outcome [of encode b H] by auto

lemma trim_idem: "trim encode b H = Inr H' \<Longrightarrow> trim encode b H' = Inr H'"
  by (simp add: trim_Inr_cost trim_within)

lemma message_tokens_ge_3:
  assumes "wf_message m"
  shows "3 \<le> message_tokens encode m"
proof -
  have "0 \<le> (\<Sum>(k, v)\<leftarrow>m. int (length (encode v)))"
    by (rule sum_list_nonneg) auto
  then show ?thesis
    using assms by (simp add: message_tokens_wf)
qed

section \<open>Claims about trimming\<close>

text \<open>
  Claim C1, as the code has it. The loop tests the estimate only; it has no test of the
  length. For every history and budget it ends in one of two ways: it returns a history
  whose estimate is at most the budget, or \<open>pop(1)\<close> raises \<open>IndexError\<close> at a history of
  at most one entry whose estimate still exceeds the budget. A history within the budget
  is returned unchanged, every eviction happens at a history over the budget, and what
  is left is the first entry followed by the entries that were not evicted. Nothing keeps
  two entries: the most recent message is evicted like any other.
\<close>

theorem trim_stop_condition:
  "((\<exists>H'. trim encode b H = Inr H' \<and> num_tokens_from_messages encode H' \<le> b)
     \<or> (\<exists>H'. trim encode b H = Inl (IndexError, H') \<and> length H' \<le> 1
            \<and> b < num_tokens_from_messages encode H'))
   \<and> (num_tokens_from_messages encode H \<le> b \<longrightarrow> trim encode b H = Inr H)
   \<and> (\<forall>s rest j. H = s # rest \<and> j < trim_pops encode b H \<longrightarrow>
          b < num_tokens_from_messages encode (s # drop j rest))
   \<and> final_messages (trim encode b H) = take 1 H @ drop (Suc (trim_pops encode b H)) H"
  using trim_outcome [of encode b H] final_messages_shape [of encode b H]
  by (auto simp: trim_within evictions_over_budget)

text \<open>
  The system message \<open>hi\<close> alone costs 14, within a budget of 15, and is returned as it
  is; with the user message \<open>hello\<close> the cost is 27, so one eviction happens there.
\<close>

theorem trim_stop_condition_witness:
  "num_tokens_from_messages char_encoding [[(''role'', ''system''), (''content'', ''hi'')]] \<le> 15
   \<and> trim char_encoding 15 [[(''role'', ''system''), (''content'', ''hi'')]] =
       Inr [[(''role'', ''system''), (''content'', ''hi'')]]
   \<and> 0 < trim_pops char_encoding 15
        [[(''role'', ''system''), (''content'', ''hi'')],
         [(''role'', ''user''), (''content'', ''hello'')]]
   \<and> 15 < num_tokens_from_messages char_encoding
        ([(''role'', ''system''), (''content'', ''hi'')]
          # drop 0 [[(''role'', ''user''), (''content'', ''hello'')]])"
  using trim_stop_condition [of char_encoding 15 "[[(''role'', ''system''), (''content'', ''hi'')]]"]
    trim_stop_condition [of char_encoding 15
      "[[(''role'', ''system''), (''content'', ''hi'')],
        [(''role'', ''user''), (''content'', ''hello'')]]"]
  by (simp add: trim_pops_evict num_tokens_from_messages_def char_encoding_def)

text \<open>
  Claim C1 as stated fails: with budget 15, the history of the system message \<open>hi\<close> and
  the user message \<open>hello\<close> costs 27, the loop evicts the user message, and returns the
  system message alone: a history of length 1.
\<close>

theorem trim_below_two_counterexample:
  "trim char_encoding 15
     [[(''role'', ''system''), (''content'', ''hi'')], [(''role'', ''user''), (''content'', ''hello'')]]
     = Inr [[(''role'', ''system''), (''content'', ''hi'')]]
   \<and> length (final_messages (trim char_encoding 15
        [[(''role'', ''system''), (''content'', ''hi'')],
         [(''role'', ''user''), (''content'', ''hello'')]])) < 2"
  by (simp add: trim_evict trim_within final_messages_def
      num_tokens_from_messages_def char_encoding_def)

text \<open>
  Claim C2. \<open>pop(1)\<close> removes the entry at index 1 and leaves the entry at index 0 where it
  is. Whatever the budget and however the loop ends, the list it leaves starts with the
  entry that was at index 0, and so does the list left by any sequence of trims.
\<close>

theorem system_message_survives:
  "pop (s # m # rest) 1 = Inr (m, s # rest)
   \<and> (\<exists>kept. final_messages (trim encode b (s # rest)) = s # kept)
   \<and> (\<exists>kept. foldl (\<lambda>H b. final_messages (trim encode b H)) (s # rest) budgets = s # kept)"
proof -
  have one: "\<exists>kept. final_messages (trim encode b (s # xs)) = s # kept" for b xs
    using final_messages_Cons [of encode b s xs] by simp
  have "\<exists>kept. foldl (\<lambda>H b. final_messages (trim encode b H)) (s # xs) budgets = s # kept" for xs
  proof (induction budgets arbitrary: xs)
    case Nil
    show ?case by simp
  next
    case (Cons b' bs)
    from one [of b' xs] obtain kept where "final_messages (trim encode b' (s # xs)) = s # kept" ..
    then show ?case using Cons.IH [of kept] by simp
  qed
  with one [of b rest] show ?thesis by (simp add: pop_def)
qed

text \<open>
  Claim C4. When the history \<open>[s, m1, ...]\<close> is over the budget, the first eviction
  removes \<open>m1\<close> and the loop goes on with \<open>[s, ...]\<close>. What the loop leaves is \<open>s\<close> and a
  suffix of the other messages: the evicted messages are the oldest ones, in the order
  they were inserted.
\<close>

theorem eviction_is_fifo:
  assumes "b < num_tokens_from_messages encode (s # m1 # rest)"
  shows "pop (s # m1 # rest) 1 = Inr (m1, s # rest)
     \<and> trim encode b (s # m1 # rest) = trim encode b (s # rest)
     \<and> 1 \<le> trim_pops encode b (s # m1 # rest)
     \<and> final_messages (trim encode b (s # m1 # rest)) =
         s # drop (trim_pops encode b (s # m1 # rest)) (m1 # rest)"
  using assms final_messages_Cons [of encode b s "m1 # rest"]
  by (simp add: trim_evict trim_pops_evict pop_def)

text \<open>
  With budget 40 the history \<open>[s, m1, m2, m3]\<close> below costs 46; evicting \<open>m1\<close> brings it
  to 37, and \<open>m2\<close> and \<open>m3\<close> stay.
\<close>

theorem eviction_is_fifo_witness:
  "40 < num_tokens_from_messages char_encoding
     [[(''role'', ''system''), (''content'', ''hi'')], [(''role'', ''user''), (''content'', ''a'')],
      [(''role'', ''assistant''), (''content'', ''b'')], [(''role'', ''user''), (''content'', ''c'')]]
   \<and> trim char_encoding 40
     [[(''role'', ''system''), (''content'', ''hi'')], [(''role'', ''user''), (''content'', ''a'')],
      [(''role'', ''assistant''), (''content'', ''b'')], [(''role'', ''user''), (''content'', ''c'')]]
     = Inr [[(''role'', ''system''), (''content'', ''hi'')],
            [(''role'', ''assistant''), (''content'', ''b'')], [(''role'', ''user''), (''content'', ''c'')]]"
  using eviction_is_fifo [of 40 char_encoding "[(''role'', ''system''), (''content'', ''hi'')]"
      "[(''role'', ''user''), (''content'', ''a'')]"
      "[[(''role'', ''assistant''), (''content'', ''b'')], [(''role'', ''user''), (''content'', ''c'')]]"]
  by (simp add: trim_within num_tokens_from_messages_def char_encoding_def)

text \<open>
  Claim C9, as the code has it. The tokenizer's result is the length of a list, so it is
  never negative, and a message (a dictionary, with at most one \<open>name\<close>) adds at least 3
  to the estimate. Every eviction lowers the estimate by at least 3, and the loop makes at
  most \<open>len(messages) - 1\<close> evictions. It ends because its condition is false, or, when
  even the first entry alone is over the budget, because \<open>pop(1)\<close> raises \<open>IndexError\<close>
  at the list that holds the first entry only.
\<close>

theorem trim_halts:
  assumes "\<forall>m \<in> set H. wf_message m"
  shows "(\<forall>m \<in> set H. 3 \<le> message_tokens encode m)
     \<and> (\<forall>popped H'. pop H 1 = Inr (popped, H') \<longrightarrow>
           num_tokens_from_messages encode H' + 3 \<le> num_tokens_from_messages encode H)
     \<and> trim_pops encode b H \<le> length H - 1
     \<and> ((\<exists>H'. trim encode b H = Inr H' \<and> num_tokens_from_messages encode H' \<le> b)
         \<or> (trim encode b H = Inl (IndexError, take 1 H)
             \<and> b < num_tokens_from_messages encode (take 1 H)))"
proof -
  have ge: "\<forall>m \<in> set H. 3 \<le> message_tokens encode m"
    using assms by (simp add: message_tokens_ge_3)
  have dec: "num_tokens_from_messages encode H' + 3 \<le> num_tokens_from_messages encode H"
    if "pop H 1 = Inr (popped, H')" for popped H'
  proof -
    from that obtain s m rest where H: "H = s # m # rest" and H': "H' = s # rest"
      by (cases H; cases "tl H") (auto simp: pop_def)
    from ge have "3 \<le> message_tokens encode m" by (simp add: H)
    then show ?thesis by (simp add: H H' num_tokens_sum)
  qed
  have out: "(\<exists>H'. trim encode b H = Inr H' \<and> num_tokens_from_messages encode H' \<le> b)
         \<or> (trim encode b H = Inl (IndexError, take 1 H)
             \<and> b < num_tokens_from_messages encode (take 1 H))"
  proof -
    from trim_outcome [of encode b H] show ?thesis
    proof
      assume "\<exists>H'. trim encode b H = Inr H' \<and> num_tokens_from_messages encode H' \<le> b"
      then show ?thesis ..
    next
      assume "\<exists>H'. trim encode b H = Inl (IndexError, H') \<and> length H' \<le> 1
          \<and> b < num_tokens_from_messages encode H'"
      then obtain H' where t: "trim encode b H = Inl (IndexError, H')"
        and len: "length H' \<le> 1" and over: "b < num_tokens_from_messages encode H'"
        by blast
      from t final_messages_shape [of encode b H]
      have "H' = take 1 H @ drop (Suc (trim_pops encode b H)) H"
        by (simp add: final_messages_def)
      with len have "H' = take 1 H"
        by (cases H) (auto split: if_splits)
      with t over show ?thesis by simp
    qed
  qed
  from ge dec out final_messages_shape [of encode b H] show ?thesis by blast
qed

text \<open>
  The history of the system message \<open>hi\<close> and the user message \<open>hello\<close>, with budget 15:
  one eviction at most, which lowers the estimate from 27 to 14.
\<close>

theorem trim_halts_witness:
  "wf_message [(''role'', ''system''), (''content'', ''hi'')]
   \<and> wf_message [(''role'', ''user''), (''content'', ''hello'')]
   \<and> 3 \<le> message_tokens char_encoding [(''role'', ''user''), (''content'', ''hello'')]
   \<and> pop [[(''role'', ''system''), (''content'', ''hi'')],
            [(''role'', ''user''), (''content'', ''hello'')]] 1
       = Inr ([(''role'', ''user''), (''content'', ''hello'')],
              [[(''role'', ''system''), (''content'', ''hi'')]])
   \<and> num_tokens_from_messages char_encoding [[(''role'', ''system''), (''content'', ''hi'')]] + 3
       \<le> num_tokens_from_messages char_encoding
            [[(''role'', ''system''), (''content'', ''hi'')],
             [(''role'', ''user''), (''content'', ''hello'')]]
   \<and> trim_pops char_encoding 15
        [[(''role'', ''system''), (''content'', ''hi'')],
         [(''role'', ''user''), (''content'', ''hello'')]] \<le> 1"
  using trim_halts [of "[[(''role'', ''system''), (''content'', ''hi'')],
         [(''role'', ''user''), (''content'', ''hello'')]]" char_encoding 15]
  by (simp add: wf_message_def pop_def)

text \<open>
  Claim C9 as stated fails where it says that the loop ends by its condition becoming
  false: with budget 0 the condition holds at every list the loop reaches, and the loop
  ends with \<open>IndexError\<close> at the system message alone.
\<close>

theorem trim_guard_never_fails_counterexample:
  "trim char_encoding 0
     [[(''role'', ''system''), (''content'', ''hi'')], [(''role'', ''user''), (''content'', ''hello'')]]
     = Inl (IndexError, [[(''role'', ''system''), (''content'', ''hi'')]])
   \<and> 0 < num_tokens_from_messages char_encoding [[(''role'', ''system''), (''content'', ''hi'')]]"
  by (simp add: trim_evict trim_short num_tokens_from_messages_def char_encoding_def)

section \<open>Claims about the conversation loops\<close>

text \<open>
  Claim C5, as the code has it. When the response is a function call naming
  \<open>get_weather\<close> and the weather lookup returns, the iteration appends exactly one
  message, with role \<open>function\<close> and that name. For a function call of any name the
  iteration reads no input and leaves \<open>user_message\<close> as it is, and the history is the
  trimmed one, or, for \<open>get_weather\<close> only, the trimmed one with that single function
  message: no assistant message is appended. A function call of any other name appends
  nothing at all.
\<close>

theorem tool_call_branch:
  assumes "trim encode b (messages st) = Inr H"
    and "create H = Inr r"
    and "finish_reason r = ''function_call''"
    and "function_call r = Some (name, arguments)"
  shows "(name = ''get_weather'' \<and> weather_json arguments = Inr weather \<longrightarrow>
            function_call_loop_body encode b create weather_json st =
              Inr (st\<lparr>messages := H @
                [[(''role'', ''function''), (''name'', name), (''content'', weather)]]\<rparr>))
     \<and> (name \<noteq> ''get_weather'' \<longrightarrow>
            function_call_loop_body encode b create weather_json st = Inr (st\<lparr>messages := H\<rparr>)
            \<and> messages (final_session (function_call_loop_body encode b create weather_json st)) = H)
     \<and> inputs (final_session (function_call_loop_body encode b create weather_json st)) = inputs st
     \<and> user_message (final_session (function_call_loop_body encode b create weather_json st))
          = user_message st
     \<and> (messages (final_session (function_call_loop_body encode b create weather_json st)) = H
         \<or> (\<exists>w. name = ''get_weather'' \<and> weather_json arguments = Inr w
              \<and> messages (final_session (function_call_loop_body encode b create weather_json st))
                  = H @ [[(''role'', ''function''), (''name'', ''get_weather''), (''content'', w)]]))"
  using assms
  by (auto simp: function_call_loop_body_def Let_def final_session_def split: sum.splits)

text \<open>
  A call naming \<open>get_weather\<close>, answered with \<open>sunny\<close>: one function message is appended
  and the waiting input \<open>exit\<close> is not read. A call naming \<open>get_time\<close>: nothing is
  appended.
\<close>

theorem tool_call_branch_witness:
  "function_call_loop_body char_encoding 3000
        (\<lambda>H. Inr \<lparr>finish_reason = ''function_call'', content = [],
                   function_call = Some (''get_weather'', ''{}'')\<rparr>)
        (\<lambda>arguments. Inr ''sunny'')
        \<lparr>messages = [[(''role'', ''system''), (''content'', ''hi'')],
                     [(''role'', ''user''), (''content'', ''hello'')]],
         user_message = ''hello'', inputs = [''exit'']\<rparr>
     = Inr \<lparr>messages = [[(''role'', ''system''), (''content'', ''hi'')],
                     [(''role'', ''user''), (''content'', ''hello'')],
                     [(''role'', ''function''), (''name'', ''get_weather''), (''content'', ''sunny'')]],
         user_message = ''hello'', inputs = [''exit'']\<rparr>
   \<and> ''get_time'' \<noteq> ''get_weather''
   \<and> messages (final_session (function_call_loop_body char_encoding 3000
        (\<lambda>H. Inr \<lparr>finish_reason = ''function_call'', content = [],
                   function_call = Some (''get_time'', ''{}'')\<rparr>)
        (\<lambda>arguments. Inr ''sunny'')
        \<lparr>messages = [[(''role'', ''system''), (''content'', ''hi'')],
                     [(''role'', ''user''), (''content'', ''hello'')]],
         user_message = ''hello'', inputs = [''exit'']\<rparr>))
     = [[(''role'', ''system''), (''content'', ''hi'')], [(''role'', ''user''), (''content'', ''hello'')]]"
proof -
  have weather: "function_call_loop_body char_encoding 3000
        (\<lambda>H. Inr \<lparr>finish_reason = ''function_call'', content = [],
                   function_call = Some (''get_weather'', ''{}'')\<rparr>)
        (\<lambda>arguments. Inr ''sunny'')
        \<lparr>messages = [[(''role'', ''system''), (''content'', ''hi'')],
                     [(''role'', ''user''), (''content'', ''hello'')]],
         user_message = ''hello'', inputs = [''exit'']\<rparr>
     = Inr \<lparr>messages = [[(''role'', ''system''), (''content'', ''hi'')],
                     [(''role'', ''user''), (''content'', ''hello'')],
                     [(''role'', ''function''), (''name'', ''get_weather''), (''content'', ''sunny'')]],
         user_message = ''hello'', inputs = [''exit'']\<rparr>"
    using tool_call_branch [of char_encoding 3000
      "\<lparr>messages = [[(''role'', ''system''), (''content'', ''hi'')],
                     [(''role'', ''user''), (''content'', ''hello'')]],
         user_message = ''hello'', inputs = [''exit'']\<rparr>"
      "[[(''role'', ''system''), (''content'', ''hi'')], [(''role'', ''user''), (''content'', ''hello'')]]"
      "\<lambda>H. Inr \<lparr>finish_reason = ''function_call'', content = [],
                   function_call = Some (''get_weather'', ''{}'')\<rparr>"
      "\<lparr>finish_reason = ''function_call'', content = [],
                   function_call = Some (''get_weather'', ''{}'')\<rparr>"
      "''get_weather''" "''{}''" "\<lambda>arguments. Inr ''sunny''" "''sunny''"]
    by (simp add: trim_within num_tokens_from_messages_def char_encoding_def)
  have other: "messages (final_session (function_call_loop_body char_encoding 3000
        (\<lambda>H. Inr \<lparr>finish_reason = ''function_call'', content = [],
                   function_call = Some (''get_time'', ''{}'')\<rparr>)
        (\<lambda>arguments. Inr ''sunny'')
        \<lparr>messages = [[(''role'', ''system''), (''content'', ''hi'')],
                     [(''role'', ''user''), (''content'', ''hello'')]],
         user_message = ''hello'', inputs = [''exit'']\<rparr>))
     = [[(''role'', ''system''), (''content'', ''hi'')], [(''role'', ''user''), (''content'', ''hello'')]]"
    using tool_call_branch [of char_encoding 3000
      "\<lparr>messages = [[(''role'', ''system''), (''content'', ''hi'')],
                     [(''role'', ''user''), (''content'', ''hello'')]],
         user_message = ''hello'', inputs = [''exit'']\<rparr>"
      "[[(''role'', ''system''), (''content'', ''hi'')], [(''role'', ''user''), (''content'', ''hello'')]]"
      "\<lambda>H. Inr \<lparr>finish_reason = ''function_call'', content = [],
                   function_call = Some (''get_time'', ''{}'')\<rparr>"
      "\<lparr>finish_reason = ''function_call'', content = [],
                   function_call = Some (''get_time'', ''{}'')\<rparr>"
      "''get_time''" "''{}''" "\<lambda>arguments. Inr ''sunny''" "''sunny''"]
    by (simp add: trim_within num_tokens_from_messages_def char_encoding_def final_session_def)
  have "''get_time'' \<noteq> ''get_weather''" by simp
  with weather other show ?thesis by (intro conjI)
qed

text \<open>
  Claim C5 as stated fails: a function call naming \<open>get_time\<close> passes the test
  \<open>finish_reason == "function_call"\<close> and fails the test of the name; the iteration
  appends no function message and ends with the session it started with.
\<close>

theorem tool_call_unanswered_counterexample:
  "function_call_loop_body char_encoding 3000
        (\<lambda>H. Inr \<lparr>finish_reason = ''function_call'', content = [],
                   function_call = Some (''get_time'', ''{}'')\<rparr>)
        (\<lambda>arguments. Inr ''sunny'')
        \<lparr>messages = [[(''role'', ''system''), (''content'', ''hi'')],
                     [(''role'', ''user''), (''content'', ''hello'')]],
         user_message = ''hello'', inputs = [''exit'']\<rparr>
     = Inr \<lparr>messages = [[(''role'', ''system''), (''content'', ''hi'')],
                     [(''role'', ''user''), (''content'', ''hello'')]],
         user_message = ''hello'', inputs = [''exit'']\<rparr>"
  by (simp add: function_call_loop_body_def trim_within num_tokens_from_messages_def
      char_encoding_def)

text \<open>
  Claim C8. In both notebooks, when the call to the service raises, the iteration ends with
  that exception, and the history is the list the service was called with: nothing is
  appended. Trimming that list again returns it unchanged, so a repeated request passes
  the same list.
\<close>

theorem generation_failure_keeps_history:
  "(trim encode b (messages st) = Inr H \<and> create H = Inl e \<longrightarrow>
      function_call_loop_body encode b create weather_json st = Inl (e, st\<lparr>messages := H\<rparr>)
      \<and> trim encode b H = Inr H)
   \<and> (trim encode b (messages st @ [[(''role'', ''user''), (''content'', user_message st)]]) = Inr H
        \<and> create H = Inl e \<longrightarrow>
      conversation_loop_body encode b create st = Inl (e, st\<lparr>messages := H\<rparr>)
      \<and> trim encode b H = Inr H)"
  by (auto simp: function_call_loop_body_def conversation_loop_body_def Let_def trim_idem)

theorem generation_failure_keeps_history_witness:
  "trim char_encoding 3000
      [[(''role'', ''system''), (''content'', ''hi'')], [(''role'', ''user''), (''content'', ''hello'')]]
     = Inr [[(''role'', ''system''), (''content'', ''hi'')], [(''role'', ''user''), (''content'', ''hello'')]]
   \<and> function_call_loop_body char_encoding 3000 (\<lambda>H. Inl (ServiceError ''timeout''))
        (\<lambda>arguments. Inr ''{}'')
        \<lparr>messages = [[(''role'', ''system''), (''content'', ''hi'')],
                     [(''role'', ''user''), (''content'', ''hello'')]],
         user_message = ''hello'', inputs = []\<rparr>
     = Inl (ServiceError ''timeout'',
        \<lparr>messages = [[(''role'', ''system''), (''content'', ''hi'')],
                     [(''role'', ''user''), (''content'', ''hello'')]],
         user_message = ''hello'', inputs = []\<rparr>)
   \<and> conversation_loop_body char_encoding 3000 (\<lambda>H. Inl (ServiceError ''timeout''))
        \<lparr>messages = [[(''role'', ''system''), (''content'', ''hi'')]],
         user_message = ''hello'', inputs = []\<rparr>
     = Inl (ServiceError ''timeout'',
        \<lparr>messages = [[(''role'', ''system''), (''content'', ''hi'')],
                     [(''role'', ''user''), (''content'', ''hello'')]],
         user_message = ''hello'', inputs = []\<rparr>)"
  using generation_failure_keeps_history [of char_encoding 3000
      "\<lparr>messages = [[(''role'', ''system''), (''content'', ''hi'')],
                     [(''role'', ''user''), (''content'', ''hello'')]],
         user_message = ''hello'', inputs = []\<rparr>"
      "[[(''role'', ''system''), (''content'', ''hi'')], [(''role'', ''user''), (''content'', ''hello'')]]"
      "\<lambda>H. Inl (ServiceError ''timeout'')" "ServiceError ''timeout''" "\<lambda>arguments. Inr ''{}''"]
    generation_failure_keeps_history [of char_encoding 3000
      "\<lparr>messages = [[(''role'', ''system''), (''content'', ''hi'')]],
         user_message = ''hello'', inputs = []\<rparr>"
      "[[(''role'', ''system''), (''content'', ''hi'')], [(''role'', ''user''), (''content'', ''hello'')]]"
      "\<lambda>H. Inl (ServiceError ''timeout'')" "ServiceError ''timeout''" "\<lambda>arguments. Inr ''{}''"]
  by (simp add: trim_within num_tokens_from_messages_def char_encoding_def)

text \<open>
  Claim C10. When the response is a function call with a name other than \<open>get_weather\<close>,
  the iteration appends nothing: it ends normally, with the trimmed history \<open>H\<close> the
  service was called with and with \<open>user_message\<close> unchanged, so the loop goes on; the
  next iteration trims \<open>H\<close> to \<open>H\<close> itself and calls the service with it.
\<close>

theorem unknown_function_appends_nothing:
  assumes "trim encode b (messages st) = Inr H"
    and "create H = Inr r"
    and "finish_reason r = ''function_call''"
    and "function_call r = Some (name, arguments)"
    and "name \<noteq> ''get_weather''"
  shows "function_call_loop_body encode b create weather_json st = Inr (st\<lparr>messages := H\<rparr>)
     \<and> user_message (st\<lparr>messages := H\<rparr>) = user_message st
     \<and> trim encode b (messages (st\<lparr>messages := H\<rparr>)) = Inr H"
  using assms by (simp add: function_call_loop_body_def Let_def trim_idem)

theorem unknown_function_appends_nothing_witness:
  "function_call_loop_body char_encoding 3000
        (\<lambda>H. Inr \<lparr>finish_reason = ''function_call'', content = [],
                   function_call = Some (''get_time'', ''{}'')\<rparr>)
        (\<lambda>arguments. Inr ''{}'')
        \<lparr>messages = [[(''role'', ''system''), (''content'', ''hi'')],
                     [(''role'', ''user''), (''content'', ''hello'')]],
         user_message = ''hello'', inputs = []\<rparr>
     = Inr \<lparr>messages = [[(''role'', ''system''), (''content'', ''hi'')],
                     [(''role'', ''user''), (''content'', ''hello'')]],
         user_message = ''hello'', inputs = []\<rparr>"
  using unknown_function_appends_nothing [of char_encoding 3000
      "\<lparr>messages = [[(''role'', ''system''), (''content'', ''hi'')],
                     [(''role'', ''user''), (''content'', ''hello'')]],
         user_message = ''hello'', inputs = []\<rparr>"
      "[[(''role'', ''system''), (''content'', ''hi'')], [(''role'', ''user''), (''content'', ''hello'')]]"
      "\<lambda>H. Inr \<lparr>finish_reason = ''function_call'', content = [],
                   function_call = Some (''get_time'', ''{}'')\<rparr>"
      "\<lparr>finish_reason = ''function_call'', content = [],
                   function_call = Some (''get_time'', ''{}'')\<rparr>"
      "''get_time''" "''{}''" "\<lambda>arguments. Inr ''{}''"]
  by (simp add: trim_within num_tokens_from_messages_def char_encoding_def)

end
